theory Spec2Isabelle
  imports Complex_Main
begin

section \<open>Shared values\<close>

text \<open>
  A Go \<^verbatim>\<open>error\<close> is modelled by its message (what \<^verbatim>\<open>%v\<close> prints); a \<^verbatim>\<open>nil\<close> error is
  \<open>None\<close> of \<open>error option\<close>. A call either returns or panics.
\<close>

type_synonym error = string

datatype 'a outcome = Returns 'a | Panics string

text \<open>
  The request and data objects of package \<^verbatim>\<open>pkg/dtos\<close>, by the fields the handlers read.
  \<^verbatim>\<open>Duration\<close>, \<^verbatim>\<open>EventLimit\<close> and \<^verbatim>\<open>RepeatCount\<close> are machine integers that the code only
  compares with \<open>0\<close>, so they are integers here. \<^verbatim>\<open>ReplayRate\<close> is a float that the code only
  compares with \<open>0\<close>; a value decoded from JSON is a finite float (JSON has no literal for
  NaN or an infinity), that is a rational number, so it is a real here. Events, devices and
  profiles are opaque: the handlers only take the length of the three slices.
\<close>

record RecordRequest =
  Duration :: int
  EventLimit :: int

record ReplayRequest =
  ReplayRate :: real
  RepeatCount :: int

record ('e, 'd, 'p) RecordedData =
  RecordedEvents :: "'e list"
  Devices :: "'d list"
  Profiles :: "'p list"

section \<open>The data manager of \<^verbatim>\<open>internal/data/manager.go\<close>\<close>

text \<open>
  A buffered Go channel \<^verbatim>\<open>make(chan T, n)\<close>: its capacity and the values sent and not yet
  received, oldest first. A send appends when the buffer has room and blocks the sender
  otherwise; a receive takes the oldest value and blocks the receiver on an empty buffer.
  A blocked operation changes nothing.
\<close>

record 'a chan =
  chan_cap :: nat
  chan_buf :: "'a list"




definition make_chan :: "nat \<Rightarrow> 'a chan" where
  "make_chan n = \<lparr>chan_cap = n, chan_buf = []\<rparr>"





text \<open>
  \<^verbatim>\<open>type dataManager struct\<close>: the hand-off channel of event batches, the context and the
  application service (both opaque).
\<close>

record ('e, 'c, 'a) dataManager =
  dataChan :: "'e list chan"
  ctx :: 'c
  appSvc :: 'a

definition NewManager :: "'c \<Rightarrow> 'a \<Rightarrow> ('e, 'c, 'a) dataManager" where
  "NewManager c service = \<lparr>dataChan = make_chan 1, ctx = c, appSvc = service\<rparr>"

text \<open>
  \<^verbatim>\<open>StartRecording\<close> and \<^verbatim>\<open>StartReplay\<close> of \<^verbatim>\<open>*dataManager\<close>: the body of each is
  \<^verbatim>\<open>panic("implement me")\<close>, whatever the receiver and the request.
\<close>

definition dataManager_StartRecording ::
  "('e, 'c, 'a) dataManager \<Rightarrow> RecordRequest \<Rightarrow> error option outcome" where
  "dataManager_StartRecording m request = Panics ''implement me''"

definition dataManager_StartReplay ::
  "('e, 'c, 'a) dataManager \<Rightarrow> ReplayRequest \<Rightarrow> error option outcome" where
  "dataManager_StartReplay m request = Panics ''implement me''"

section \<open>The HTTP controller\<close>

subsection \<open>Requests and the response writer\<close>

text \<open>
  \<^verbatim>\<open>http.Header\<close> and \<^verbatim>\<open>url.Values\<close> are both \<^verbatim>\<open>map[string][]string\<close>; \<^verbatim>\<open>Get\<close> gives the first
  value stored under the key and the empty string when there is none. (Header keys are in
  canonical form, as the server stores them; the handlers use canonical keys.)
\<close>

type_synonym Values = "string \<rightharpoonup> string list"

definition Values_Get :: "Values \<Rightarrow> string \<Rightarrow> string" where
  "Values_Get vs k = (case vs k of None \<Rightarrow> [] | Some [] \<Rightarrow> [] | Some (v # rest) \<Rightarrow> v)"

text \<open>
  Of \<^verbatim>\<open>*http.Request\<close>: the header, the parsed query of the URL and the bytes of the body.
\<close>

record Request =
  Header :: Values
  Query :: Values
  Body :: string

text \<open>
  \<^verbatim>\<open>http.ResponseWriter\<close>: the header map, the status code once written and the bytes
  written. Only the first \<^verbatim>\<open>WriteHeader\<close> counts; a \<^verbatim>\<open>Write\<close> before any \<^verbatim>\<open>WriteHeader\<close>
  writes status 200 first. The handlers drop the error of every \<^verbatim>\<open>Write\<close>, so a write is
  modelled as always taken.
\<close>

record ResponseWriter =
  Headers :: Values
  Status :: "nat option"
  Written :: string

definition newResponseWriter :: ResponseWriter where
  "newResponseWriter = \<lparr>Headers = Map.empty, Status = None, Written = []\<rparr>"

definition Header_Set :: "string \<Rightarrow> string \<Rightarrow> ResponseWriter \<Rightarrow> ResponseWriter" where
  "Header_Set k v w = w\<lparr>Headers := (Headers w)(k \<mapsto> [v])\<rparr>"

definition WriteHeader :: "nat \<Rightarrow> ResponseWriter \<Rightarrow> ResponseWriter" where
  "WriteHeader code w = (case Status w of None \<Rightarrow> w\<lparr>Status := Some code\<rparr> | Some c \<Rightarrow> w)"

definition Write :: "string \<Rightarrow> ResponseWriter \<Rightarrow> ResponseWriter" where
  "Write b w = (let w' = WriteHeader 200 w in w'\<lparr>Written := Written w' @ b\<rparr>)"

subsection \<open>Constants\<close>

abbreviation StatusOK :: nat where "StatusOK \<equiv> 200"
abbreviation StatusAccepted :: nat where "StatusAccepted \<equiv> 202"
abbreviation StatusBadRequest :: nat where "StatusBadRequest \<equiv> 400"
abbreviation StatusInternalServerError :: nat where "StatusInternalServerError \<equiv> 500"

abbreviation failedRequestJSON :: string where
  "failedRequestJSON \<equiv> ''Unable to process request JSON''"
abbreviation failedRecordRequestValidate :: string where
  "failedRecordRequestValidate \<equiv>
     ''Record request failed validation: Duration and/or EventLimit must be set''"
abbreviation failedRecordDurationValidate :: string where
  "failedRecordDurationValidate \<equiv>
     ''Record request failed validation: Duration must be > 0 when set''"
abbreviation failedRecordEventLimitValidate :: string where
  "failedRecordEventLimitValidate \<equiv>
     ''Record request failed validation: Event Limit must be > 0 when set''"
abbreviation failedRecording :: string where
  "failedRecording \<equiv> ''Recording failed''"
abbreviation failedReplayRateValidate :: string where
  "failedReplayRateValidate \<equiv>
     ''Replay request failed validation: Replay Rate must be greater than 0''"
abbreviation failedRepeatCountValidate :: string where
  "failedRepeatCountValidate \<equiv>
     ''Replay request failed validation: Repeat Count must be equal or greater than 0''"
abbreviation failedReplay :: string where
  "failedReplay \<equiv> ''Replay failed''"
abbreviation failedDataCompression :: string where
  "failedDataCompression \<equiv> ''failed to compress recorded data of type''"
abbreviation failedToUncompressData :: string where
  "failedToUncompressData \<equiv> ''failed to uncompress data''"
abbreviation failedImportingData :: string where
  "failedImportingData \<equiv> ''Import data failed''"
abbreviation noDataFound :: string where
  "noDataFound \<equiv> ''no recorded data found''"

abbreviation noCompression :: string where "noCompression \<equiv> []"
abbreviation zlibCompression :: string where "zlibCompression \<equiv> ''ZLIB''"
abbreviation gzipCompression :: string where "gzipCompression \<equiv> ''GZIP''"
abbreviation contenEncodingGzip :: string where "contenEncodingGzip \<equiv> ''gzip''"
abbreviation contentEncodingZlib :: string where "contentEncodingZlib \<equiv> ''deflate''"

text \<open>
  \<^verbatim>\<open>common.ContentType\<close> and \<^verbatim>\<open>common.ContentTypeJSON\<close> of the imported contracts module; the
  handler's own error message names the second ("Must be application/json").
\<close>

abbreviation ContentType :: string where "ContentType \<equiv> ''Content-Type''"
abbreviation ContentTypeJSON :: string where "ContentTypeJSON \<equiv> ''application/json''"

subsection \<open>What the handlers call\<close>

text \<open>
  The reader the import handler decodes from: the request body as it is, or the body
  behind a gzip or a zlib reader.
\<close>

datatype reader = BodyReader string | GzipReader string | ZlibReader string

text \<open>
  The functions of the Go library the handlers call, as parameters:
  \<^item> \<^verbatim>\<open>json.NewDecoder(r).Decode(v)\<close> for the three request types. Decoding into the
    \<^verbatim>\<open>**RecordedData\<close> of the import handler can leave the pointer \<^verbatim>\<open>nil\<close> (the JSON value
    \<^verbatim>\<open>null\<close>), which is \<open>None\<close>;
  \<^item> \<^verbatim>\<open>json.Marshal\<close>; \<^verbatim>\<open>Encoder.Encode\<close> writes the same bytes and a newline;
  \<^item> \<^verbatim>\<open>gzip.NewReader\<close> and \<^verbatim>\<open>zlib.NewReader\<close>, which read the stream's header and may
    fail on it;
  \<^item> the whole stream a gzip or zlib writer produces for given input, \<^verbatim>\<open>Close\<close> included;
  \<^item> \<^verbatim>\<open>strconv.Quote\<close>, for the error message of \<^verbatim>\<open>strconv.ParseBool\<close>.
\<close>

record ('e, 'd, 'p) library =
  json_Decode_RecordRequest :: "string \<Rightarrow> error + RecordRequest"
  json_Decode_ReplayRequest :: "string \<Rightarrow> error + ReplayRequest"
  json_Decode_RecordedData :: "reader \<Rightarrow> error + ('e, 'd, 'p) RecordedData option"
  json_Marshal :: "('e, 'd, 'p) RecordedData \<Rightarrow> error + string"
  gzip_NewReader :: "string \<Rightarrow> error option"
  zlib_NewReader :: "string \<Rightarrow> error option"
  gzip_stream :: "string \<Rightarrow> string"
  zlib_stream :: "string \<Rightarrow> string"
  strconv_Quote :: "string \<Rightarrow> string"

text \<open>\<^verbatim>\<open>strconv.ParseBool\<close> of the Go library: six spellings of each truth value.\<close>

definition ParseBool :: "(string \<Rightarrow> string) \<Rightarrow> string \<Rightarrow> error + bool" where
  "ParseBool quote str =
     (if str \<in> set [''1'', ''t'', ''T'', ''true'', ''TRUE'', ''True''] then Inr True
      else if str \<in> set [''0'', ''f'', ''F'', ''false'', ''FALSE'', ''False''] then Inr False
      else Inl (''strconv.ParseBool: parsing '' @ quote str @ '': invalid syntax''))"

text \<open>
  \<^verbatim>\<open>interfaces.DataManager\<close>, by the four methods these handlers call, over the manager's
  state \<open>'s\<close>. The controller holds the manager behind this interface only.
\<close>

record ('s, 'e, 'd, 'p) DataManager =
  StartRecording :: "RecordRequest \<Rightarrow> 's \<Rightarrow> error option outcome \<times> 's"
  StartReplay :: "ReplayRequest \<Rightarrow> 's \<Rightarrow> error option outcome \<times> 's"
  ExportRecordedData :: "'s \<Rightarrow> (error + ('e, 'd, 'p) RecordedData) outcome \<times> 's"
  ImportRecordedData :: "('e, 'd, 'p) RecordedData \<Rightarrow> bool \<Rightarrow> 's \<Rightarrow> error option outcome \<times> 's"

subsection \<open>The handlers\<close>

text \<open>
  Each handler takes the writer and the request, as in the source, and the state of the
  data manager; it gives the writer as the handler leaves it (or the panic that ends it)
  and the manager's state afterwards. A panic of the manager goes through the handler.
\<close>

definition startRecording ::
  "('e, 'd, 'p) library \<Rightarrow> ('s, 'e, 'd, 'p) DataManager \<Rightarrow> ResponseWriter \<Rightarrow> Request \<Rightarrow> 's
     \<Rightarrow> ResponseWriter outcome \<times> 's" where
  "startRecording lib dm writer request s =
     (case json_Decode_RecordRequest lib (Body request) of
        Inl err \<Rightarrow>
          (Returns (Write (failedRequestJSON @ '': '' @ err)
             (WriteHeader StatusBadRequest writer)), s)
      | Inr startRequest \<Rightarrow>
          if Duration startRequest = 0 \<and> EventLimit startRequest = 0 then
            (Returns (Write failedRecordRequestValidate
               (WriteHeader StatusBadRequest writer)), s)
          else if Duration startRequest < 0 then
            (Returns (Write failedRecordDurationValidate
               (WriteHeader StatusBadRequest writer)), s)
          else if EventLimit startRequest < 0 then
            (Returns (Write failedRecordEventLimitValidate
               (WriteHeader StatusBadRequest writer)), s)
          else
            (case StartRecording dm startRequest s of
               (Panics msg, s') \<Rightarrow> (Panics msg, s')
             | (Returns (Some err), s') \<Rightarrow>
                 (Returns (Write (failedRecording @ '': '' @ err)
                    (WriteHeader StatusInternalServerError writer)), s')
             | (Returns None, s') \<Rightarrow> (Returns (WriteHeader StatusAccepted writer), s')))"

definition startReplay ::
  "('e, 'd, 'p) library \<Rightarrow> ('s, 'e, 'd, 'p) DataManager \<Rightarrow> ResponseWriter \<Rightarrow> Request \<Rightarrow> 's
     \<Rightarrow> ResponseWriter outcome \<times> 's" where
  "startReplay lib dm writer request s =
     (case json_Decode_ReplayRequest lib (Body request) of
        Inl err \<Rightarrow>
          (Returns (Write (failedRequestJSON @ '': '' @ err)
             (WriteHeader StatusBadRequest writer)), s)
      | Inr startRequest \<Rightarrow>
          if ReplayRate startRequest \<le> 0 then
            (Returns (Write failedReplayRateValidate
               (WriteHeader StatusBadRequest writer)), s)
          else if RepeatCount startRequest < 0 then
            (Returns (Write failedRepeatCountValidate
               (WriteHeader StatusBadRequest writer)), s)
          else
            (case StartReplay dm startRequest s of
               (Panics msg, s') \<Rightarrow> (Panics msg, s')
             | (Returns (Some err), s') \<Rightarrow>
                 (Returns (Write (failedReplay @ '': '' @ err)
                    (WriteHeader StatusInternalServerError writer)), s')
             | (Returns None, s') \<Rightarrow> (Returns (WriteHeader StatusAccepted writer), s')))"

text \<open>
  \<^verbatim>\<open>exportRecordedData\<close>. In the two compressed cases the encoder marshals first and then
  writes through the compressing writer, whose \<^verbatim>\<open>Close\<close> is deferred. The compressed stream
  reaches the response in pieces, the first of them possibly before \<^verbatim>\<open>WriteHeader(200)\<close>;
  such a write sets status 200 itself, so the writer ends as if the whole stream were
  written after \<^verbatim>\<open>WriteHeader(200)\<close>, which is how it is modelled. When marshalling fails
  nothing has been written through the compressing writer, the handler writes status 500
  and its message, and the deferred \<^verbatim>\<open>Close\<close> then writes the stream of the empty input.
\<close>

definition exportRecordedData ::
  "('e, 'd, 'p) library \<Rightarrow> ('s, 'e, 'd, 'p) DataManager \<Rightarrow> ResponseWriter \<Rightarrow> Request \<Rightarrow> 's
     \<Rightarrow> ResponseWriter outcome \<times> 's" where
  "exportRecordedData lib dm writer request s =
     (case ExportRecordedData dm s of
        (Panics msg, s') \<Rightarrow> (Panics msg, s')
      | (Returns (Inl err), s') \<Rightarrow>
          (Returns (Write (''failed to export recorded data: '' @ err)
             (WriteHeader StatusInternalServerError writer)), s')
      | (Returns (Inr recordedData), s') \<Rightarrow>
          (let compression = Values_Get (Query request) ''compression'' in
           if compression = noCompression then
             (case json_Marshal lib recordedData of
                Inl err \<Rightarrow>
                  (Returns (Write ''failed to marshal recorded data''
                     (WriteHeader StatusInternalServerError writer)), s')
              | Inr jsonResponse \<Rightarrow>
                  (Returns (Write jsonResponse (WriteHeader StatusOK
                     (Header_Set ''Content-Type'' ''application/json'' writer))), s'))
           else if compression = zlibCompression then
             (let w = Header_Set ''Content-Type'' ''application/json''
                        (Header_Set ''Content-Encoding'' ''ZLIB'' writer) in
              case json_Marshal lib recordedData of
                Inl err \<Rightarrow>
                  (Returns (Write (zlib_stream lib [])
                     (Write (failedDataCompression @ '' '' @ zlibCompression @ '': '' @ err)
                        (WriteHeader StatusInternalServerError w))), s')
              | Inr js \<Rightarrow>
                  (Returns (Write (zlib_stream lib (js @ [CHR 0x0A]))
                     (WriteHeader StatusOK w)), s'))
           else if compression = gzipCompression then
             (let w = Header_Set ''Content-Type'' ''application/json''
                        (Header_Set ''Content-Encoding'' ''GZIP'' writer) in
              case json_Marshal lib recordedData of
                Inl err \<Rightarrow>
                  (Returns (Write (gzip_stream lib [])
                     (Write (failedDataCompression @ '' '' @ gzipCompression @ '': '' @ err)
                        (WriteHeader StatusInternalServerError w))), s')
              | Inr js \<Rightarrow>
                  (Returns (Write (gzip_stream lib (js @ [CHR 0x0A]))
                     (WriteHeader StatusOK w)), s'))
           else
             (Returns (Write (''compression format not available: '' @ compression)
                (WriteHeader StatusInternalServerError writer)), s')))"

text \<open>
  \<^verbatim>\<open>importRecordedData\<close>, in the order of the source. Three parts of its body are named so
  that the statements below can speak of them: the overwrite flag (lines 303-313), the
  reader (lines 315-341) and what follows the call of \<^verbatim>\<open>Decode\<close> (lines 344-375). In the
  first two, \<open>Inl\<close> carries the message the handler writes with status 400 before it
  returns.
\<close>

definition importRecordedData_overwrite :: "('e, 'd, 'p) library \<Rightarrow> Request \<Rightarrow> string + bool" where
  "importRecordedData_overwrite lib request =
     (let queryParam = Values_Get (Query request) ''overwrite'' in
      if length queryParam = 0 then Inr True
      else
        (case ParseBool (strconv_Quote lib) queryParam of
           Inl err \<Rightarrow> Inl (''failed to parse overwrite parameter: '' @ err)
         | Inr b \<Rightarrow> Inr b))"

definition importRecordedData_reader :: "('e, 'd, 'p) library \<Rightarrow> Request \<Rightarrow> string + reader" where
  "importRecordedData_reader lib request =
     (let compression = Values_Get (Header request) ''Content-Encoding'' in
      if compression = noCompression then Inr (BodyReader (Body request))
      else if compression = contenEncodingGzip then
        (case gzip_NewReader lib (Body request) of
           Some err \<Rightarrow> Inl (failedToUncompressData @ '': '' @ err)
         | None \<Rightarrow> Inr (GzipReader (Body request)))
      else if compression = contentEncodingZlib then
        (case zlib_NewReader lib (Body request) of
           Some err \<Rightarrow> Inl (failedToUncompressData @ '': '' @ err)
         | None \<Rightarrow> Inr (ZlibReader (Body request)))
      else Inl (''compression format '' @ compression @ '' not supported''))"

definition importRecordedData_decoded ::
  "('s, 'e, 'd, 'p) DataManager \<Rightarrow> ResponseWriter \<Rightarrow> bool \<Rightarrow> 's
     \<Rightarrow> error + ('e, 'd, 'p) RecordedData option \<Rightarrow> ResponseWriter outcome \<times> 's" where
  "importRecordedData_decoded dm writer overWriteProfilesDevices s decoded =
     (case decoded of
        Inl err \<Rightarrow>
          (Returns (Write (failedRequestJSON @ '': '' @ err)
             (WriteHeader StatusBadRequest writer)), s)
      | Inr None \<Rightarrow> (Panics ''runtime error: invalid memory address or nil pointer dereference'', s)
      | Inr (Some importedRecordedData) \<Rightarrow>
          if length (RecordedEvents importedRecordedData) < 1 then
            (Returns (Write (noDataFound @ '': no recorded events'')
               (WriteHeader StatusBadRequest writer)), s)
          else if length (Devices importedRecordedData) < 1 then
            (Returns (Write (noDataFound @ '': no devices'')
               (WriteHeader StatusBadRequest writer)), s)
          else if length (Profiles importedRecordedData) < 1 then
            (Returns (Write (noDataFound @ '': no profiles'')
               (WriteHeader StatusBadRequest writer)), s)
          else
            (case ImportRecordedData dm importedRecordedData overWriteProfilesDevices s of
               (Panics msg, s') \<Rightarrow> (Panics msg, s')
             | (Returns (Some err), s') \<Rightarrow>
                 (Returns (Write (failedImportingData @ '': '' @ err)
                    (WriteHeader StatusInternalServerError writer)), s')
             | (Returns None, s') \<Rightarrow> (Returns (WriteHeader StatusAccepted writer), s')))"

definition importRecordedData ::
  "('e, 'd, 'p) library \<Rightarrow> ('s, 'e, 'd, 'p) DataManager \<Rightarrow> ResponseWriter \<Rightarrow> Request \<Rightarrow> 's
     \<Rightarrow> ResponseWriter outcome \<times> 's" where
  "importRecordedData lib dm writer request s =
     (let contentType = Values_Get (Header request) ContentType in
      if contentType \<noteq> ContentTypeJSON then
        (Returns (Write (''Invalid content type '' @ [CHR 0x27] @ contentType @ [CHR 0x27]
                           @ ''. Must be application/json'')
           (WriteHeader StatusBadRequest writer)), s)
      else
        (case importRecordedData_overwrite lib request of
           Inl msg \<Rightarrow> (Returns (Write msg (WriteHeader StatusBadRequest writer)), s)
         | Inr overWriteProfilesDevices \<Rightarrow>
             (case importRecordedData_reader lib request of
                Inl msg \<Rightarrow> (Returns (Write msg (WriteHeader StatusBadRequest writer)), s)
              | Inr reader \<Rightarrow>
                  importRecordedData_decoded dm writer overWriteProfilesDevices s
                    (json_Decode_RecordedData lib reader))))"

section \<open>Concrete inputs\<close>

text \<open>
  A data manager that appends every call it receives to its state, a log, and answers
  with a fixed error (or none) and a fixed stored recording; and a small library whose
  decoders know a handful of bodies. The handlers are evaluated on these below.
\<close>

datatype ('e, 'd, 'p) manager_call =
    StartRecordingCall RecordRequest
  | StartReplayCall ReplayRequest
  | ExportRecordedDataCall
  | ImportRecordedDataCall "('e, 'd, 'p) RecordedData" bool

definition logging_manager ::
  "error option \<Rightarrow> (error + ('e, 'd, 'p) RecordedData)
     \<Rightarrow> (('e, 'd, 'p) manager_call list, 'e, 'd, 'p) DataManager" where
  "logging_manager err stored =
     \<lparr>StartRecording = (\<lambda>r log. (Returns err, log @ [StartRecordingCall r])),
      StartReplay = (\<lambda>r log. (Returns err, log @ [StartReplayCall r])),
      ExportRecordedData = (\<lambda>log. (Returns stored, log @ [ExportRecordedDataCall])),
      ImportRecordedData = (\<lambda>d ow log. (Returns err, log @ [ImportRecordedDataCall d ow]))\<rparr>"

definition example_library :: "(nat, nat, nat) library" where
  "example_library =
     \<lparr>json_Decode_RecordRequest = (\<lambda>b.
        if b = ''R0'' then Inr \<lparr>Duration = 0, EventLimit = 0\<rparr>
        else if b = ''R1'' then Inr \<lparr>Duration = 5, EventLimit = 0\<rparr>
        else if b = ''R2'' then Inr \<lparr>Duration = 5, EventLimit = - 1\<rparr>
        else Inl ''unexpected end of JSON input''),
      json_Decode_ReplayRequest = (\<lambda>b.
        if b = ''P0'' then Inr \<lparr>ReplayRate = 0, RepeatCount = 0\<rparr>
        else if b = ''P1'' then Inr \<lparr>ReplayRate = 1 / 2, RepeatCount = 0\<rparr>
        else if b = ''P2'' then Inr \<lparr>ReplayRate = 2, RepeatCount = - 1\<rparr>
        else Inl ''unexpected end of JSON input''),
      json_Decode_RecordedData = (\<lambda>r.
        if r = BodyReader ''D1'' \<or> r = GzipReader ''gz:D1'' \<or> r = ZlibReader ''zl:D1''
        then Inr (Some \<lparr>RecordedEvents = [1], Devices = [2], Profiles = [3]\<rparr>)
        else if r = BodyReader ''D0'' then Inr (Some \<lparr>RecordedEvents = [], Devices = [], Profiles = [3]\<rparr>)
        else if r = BodyReader ''D2'' then Inr (Some \<lparr>RecordedEvents = [1], Devices = [], Profiles = []\<rparr>)
        else if r = BodyReader ''D3'' then Inr (Some \<lparr>RecordedEvents = [1], Devices = [2], Profiles = []\<rparr>)
        else if r = BodyReader ''null'' then Inr None
        else Inl ''invalid character''),
      json_Marshal = (\<lambda>d. Inr ''D1''),
      gzip_NewReader = (\<lambda>b. if take 3 b = ''gz:'' then None else Some ''gzip: invalid header''),
      zlib_NewReader = (\<lambda>b. if take 3 b = ''zl:'' then None else Some ''zlib: invalid header''),
      gzip_stream = (\<lambda>b. ''gz:'' @ b),
      zlib_stream = (\<lambda>b. ''zl:'' @ b),
      strconv_Quote = (\<lambda>b. [CHR 0x22] @ b @ [CHR 0x22])\<rparr>"

section \<open>Properties of the data manager\<close>




text \<open>
  C1, as the code has it: every start attempt on the data manager panics with
  "implement me". No call of \<^verbatim>\<open>StartRecording\<close> or \<^verbatim>\<open>StartReplay\<close> returns, so none returns
  an error, SessionBusy or other, in whatever order two start attempts are made. The doc
  comment of both functions promises an error when a session is running.
\<close>

theorem dataManager_start_panics:
  "dataManager_StartRecording (NewManager c a :: ('e, 'c, 'a) dataManager) r = Panics ''implement me'' \<and>
   dataManager_StartReplay (NewManager c a :: ('e, 'c, 'a) dataManager) p = Panics ''implement me'' \<and>
   (\<forall>e. dataManager_StartRecording (NewManager c a :: ('e, 'c, 'a) dataManager) r \<noteq> Returns (Some e)) \<and>
   (\<forall>e. dataManager_StartReplay (NewManager c a :: ('e, 'c, 'a) dataManager) p \<noteq> Returns (Some e))"
  by (simp add: dataManager_StartRecording_def dataManager_StartReplay_def)



section \<open>Properties of the handlers\<close>

text \<open>
  The writer operations on a writer given by its fields, and some stages of the import
  handler on a plain JSON request, for evaluating the handlers.
\<close>

lemma WriteHeader_unset:
  "WriteHeader code \<lparr>Headers = h, Status = None, Written = b\<rparr> =
     \<lparr>Headers = h, Status = Some code, Written = b\<rparr>"
  by (simp add: WriteHeader_def)

lemma WriteHeader_set:
  "WriteHeader code \<lparr>Headers = h, Status = Some c, Written = b\<rparr> =
     \<lparr>Headers = h, Status = Some c, Written = b\<rparr>"
  by (simp add: WriteHeader_def)

lemma Write_set:
  "Write x \<lparr>Headers = h, Status = Some c, Written = b\<rparr> =
     \<lparr>Headers = h, Status = Some c, Written = b @ x\<rparr>"
  by (simp add: Write_def WriteHeader_def)

lemma Write_unset:
  "Write x \<lparr>Headers = h, Status = None, Written = b\<rparr> =
     \<lparr>Headers = h, Status = Some 200, Written = b @ x\<rparr>"
  by (simp add: Write_def WriteHeader_def)

lemma Header_Set_fields:
  "Header_Set k v \<lparr>Headers = h, Status = c, Written = b\<rparr> =
     \<lparr>Headers = h(k \<mapsto> [v]), Status = c, Written = b\<rparr>"
  by (simp add: Header_Set_def)

lemmas writer_simps =
  newResponseWriter_def WriteHeader_unset WriteHeader_set Write_set Write_unset Header_Set_fields


text \<open>
  A body that decodes to a \<^verbatim>\<open>nil\<close> pointer (the JSON value \<^verbatim>\<open>null\<close>) passes the decoding
  check; the handler then reads a field through the pointer and panics, before any
  validation message and before the manager is called.
\<close>

lemma importRecordedData_nil_payload:
  assumes "Values_Get (Header request) ''Content-Type'' = ''application/json''"
    and "importRecordedData_overwrite lib request = Inr ow"
    and "importRecordedData_reader lib request = Inr rd"
    and "json_Decode_RecordedData lib rd = Inr None"
  shows
    "importRecordedData lib dm writer request s =
       (Panics ''runtime error: invalid memory address or nil pointer dereference'', s)"
  using assms by (simp add: importRecordedData_def importRecordedData_decoded_def)

text \<open>
  C5: POST /record. A body that does not decode is answered 400. For a decoded request,
  if duration and event limit are both zero, or either is negative, the handler answers
  400 with the message of the first failing check (both zero, then duration, then event
  limit) and the manager's state is the one it started from, whatever the manager:
  \<^verbatim>\<open>StartRecording\<close> is not called. Otherwise (at least one is set and every set value is
  positive) the handler calls \<^verbatim>\<open>StartRecording\<close> with the decoded request and answers 202
  when it returns no error and 500 when it returns one.
\<close>

theorem startRecording_validates:
  "(json_Decode_RecordRequest lib (Body request) = Inl e \<longrightarrow>
      startRecording lib dm newResponseWriter request s =
        (Returns \<lparr>Headers = Map.empty, Status = Some 400,
           Written = ''Unable to process request JSON: '' @ e\<rparr>, s)) \<and>
   (json_Decode_RecordRequest lib (Body request) = Inr r \<longrightarrow>
      ((Duration r = 0 \<and> EventLimit r = 0) \<or> Duration r < 0 \<or> EventLimit r < 0 \<longrightarrow>
         startRecording lib dm newResponseWriter request s =
           (Returns \<lparr>Headers = Map.empty, Status = Some 400,
              Written = (if Duration r = 0 \<and> EventLimit r = 0 then failedRecordRequestValidate
                         else if Duration r < 0 then failedRecordDurationValidate
                         else failedRecordEventLimitValidate)\<rparr>, s)) \<and>
      (\<not> ((Duration r = 0 \<and> EventLimit r = 0) \<or> Duration r < 0 \<or> EventLimit r < 0) \<longrightarrow>
         startRecording lib dm newResponseWriter request s =
           (case StartRecording dm r s of
              (Panics msg, s') \<Rightarrow> (Panics msg, s')
            | (Returns (Some err), s') \<Rightarrow>
                (Returns \<lparr>Headers = Map.empty, Status = Some 500,
                   Written = failedRecording @ '': '' @ err\<rparr>, s')
            | (Returns None, s') \<Rightarrow>
                (Returns \<lparr>Headers = Map.empty, Status = Some 202, Written = []\<rparr>, s'))))"
  by (simp add: startRecording_def writer_simps
      split: prod.splits outcome.splits option.splits)

theorem startRecording_validates_witness:
  "startRecording example_library (logging_manager None (Inl ''none''))
     newResponseWriter \<lparr>Header = Map.empty, Query = Map.empty, Body = ''R0''\<rparr> [] =
     (Returns \<lparr>Headers = Map.empty, Status = Some 400, Written = failedRecordRequestValidate\<rparr>, []) \<and>
   startRecording example_library (logging_manager None (Inl ''none''))
     newResponseWriter \<lparr>Header = Map.empty, Query = Map.empty, Body = ''R2''\<rparr> [] =
     (Returns \<lparr>Headers = Map.empty, Status = Some 400, Written = failedRecordEventLimitValidate\<rparr>, []) \<and>
   startRecording example_library (logging_manager None (Inl ''none''))
     newResponseWriter \<lparr>Header = Map.empty, Query = Map.empty, Body = ''R1''\<rparr> [] =
     (Returns \<lparr>Headers = Map.empty, Status = Some 202, Written = []\<rparr>,
      [StartRecordingCall \<lparr>Duration = 5, EventLimit = 0\<rparr>]) \<and>
   startRecording example_library (logging_manager (Some ''busy'') (Inl ''none''))
     newResponseWriter \<lparr>Header = Map.empty, Query = Map.empty, Body = ''R1''\<rparr> [] =
     (Returns \<lparr>Headers = Map.empty, Status = Some 500, Written = ''Recording failed: busy''\<rparr>,
      [StartRecordingCall \<lparr>Duration = 5, EventLimit = 0\<rparr>])"
  using
    startRecording_validates [where lib = example_library and request = "\<lparr>Header = Map.empty, Query = Map.empty, Body = ''R0''\<rparr>"
      and r = "\<lparr>Duration = 0, EventLimit = 0\<rparr>" and dm = "logging_manager None (Inl ''none'')" and s = "[]"]
    startRecording_validates [where lib = example_library and request = "\<lparr>Header = Map.empty, Query = Map.empty, Body = ''R2''\<rparr>"
      and r = "\<lparr>Duration = 5, EventLimit = - 1\<rparr>" and dm = "logging_manager None (Inl ''none'')" and s = "[]"]
    startRecording_validates [where lib = example_library and request = "\<lparr>Header = Map.empty, Query = Map.empty, Body = ''R1''\<rparr>"
      and r = "\<lparr>Duration = 5, EventLimit = 0\<rparr>" and dm = "logging_manager None (Inl ''none'')" and s = "[]"]
    startRecording_validates [where lib = example_library and request = "\<lparr>Header = Map.empty, Query = Map.empty, Body = ''R1''\<rparr>"
      and r = "\<lparr>Duration = 5, EventLimit = 0\<rparr>" and dm = "logging_manager (Some ''busy'') (Inl ''none'')" and s = "[]"]
  by (simp add: example_library_def logging_manager_def)

text \<open>
  C6: POST /replay. A body that does not decode is answered 400. For a decoded request,
  if the replay rate is at most 0 or the repeat count is negative, the handler answers 400
  (the rate is checked first) and the manager's state is the one it started from, whatever
  the manager: \<^verbatim>\<open>StartReplay\<close> is not called. When the rate is positive and the repeat
  count is not negative, the handler calls \<^verbatim>\<open>StartReplay\<close> with the decoded request and
  answers 202 when it returns no error and 500 when it returns one.
\<close>

theorem startReplay_validates:
  "(json_Decode_ReplayRequest lib (Body request) = Inl e \<longrightarrow>
      startReplay lib dm newResponseWriter request s =
        (Returns \<lparr>Headers = Map.empty, Status = Some 400,
           Written = ''Unable to process request JSON: '' @ e\<rparr>, s)) \<and>
   (json_Decode_ReplayRequest lib (Body request) = Inr r \<longrightarrow>
      (ReplayRate r \<le> 0 \<or> RepeatCount r < 0 \<longrightarrow>
         startReplay lib dm newResponseWriter request s =
           (Returns \<lparr>Headers = Map.empty, Status = Some 400,
              Written = (if ReplayRate r \<le> 0 then failedReplayRateValidate
                         else failedRepeatCountValidate)\<rparr>, s)) \<and>
      (0 < ReplayRate r \<and> 0 \<le> RepeatCount r \<longrightarrow>
         startReplay lib dm newResponseWriter request s =
           (case StartReplay dm r s of
              (Panics msg, s') \<Rightarrow> (Panics msg, s')
            | (Returns (Some err), s') \<Rightarrow>
                (Returns \<lparr>Headers = Map.empty, Status = Some 500,
                   Written = failedReplay @ '': '' @ err\<rparr>, s')
            | (Returns None, s') \<Rightarrow>
                (Returns \<lparr>Headers = Map.empty, Status = Some 202, Written = []\<rparr>, s'))))"
  by (simp add: startReplay_def writer_simps
      split: prod.splits outcome.splits option.splits)

theorem startReplay_validates_witness:
  "startReplay example_library (logging_manager None (Inl ''none''))
     newResponseWriter \<lparr>Header = Map.empty, Query = Map.empty, Body = ''P0''\<rparr> [] =
     (Returns \<lparr>Headers = Map.empty, Status = Some 400, Written = failedReplayRateValidate\<rparr>, []) \<and>
   startReplay example_library (logging_manager None (Inl ''none''))
     newResponseWriter \<lparr>Header = Map.empty, Query = Map.empty, Body = ''P2''\<rparr> [] =
     (Returns \<lparr>Headers = Map.empty, Status = Some 400, Written = failedRepeatCountValidate\<rparr>, []) \<and>
   startReplay example_library (logging_manager None (Inl ''none''))
     newResponseWriter \<lparr>Header = Map.empty, Query = Map.empty, Body = ''P1''\<rparr> [] =
     (Returns \<lparr>Headers = Map.empty, Status = Some 202, Written = []\<rparr>,
      [StartReplayCall \<lparr>ReplayRate = 1 / 2, RepeatCount = 0\<rparr>]) \<and>
   startReplay example_library (logging_manager (Some ''busy'') (Inl ''none''))
     newResponseWriter \<lparr>Header = Map.empty, Query = Map.empty, Body = ''P1''\<rparr> [] =
     (Returns \<lparr>Headers = Map.empty, Status = Some 500, Written = ''Replay failed: busy''\<rparr>,
      [StartReplayCall \<lparr>ReplayRate = 1 / 2, RepeatCount = 0\<rparr>])"
  using
    startReplay_validates [where lib = example_library and request = "\<lparr>Header = Map.empty, Query = Map.empty, Body = ''P0''\<rparr>"
      and r = "\<lparr>ReplayRate = 0, RepeatCount = 0\<rparr>" and dm = "logging_manager None (Inl ''none'')" and s = "[]"]
    startReplay_validates [where lib = example_library and request = "\<lparr>Header = Map.empty, Query = Map.empty, Body = ''P2''\<rparr>"
      and r = "\<lparr>ReplayRate = 2, RepeatCount = - 1\<rparr>" and dm = "logging_manager None (Inl ''none'')" and s = "[]"]
    startReplay_validates [where lib = example_library and request = "\<lparr>Header = Map.empty, Query = Map.empty, Body = ''P1''\<rparr>"
      and r = "\<lparr>ReplayRate = 1 / 2, RepeatCount = 0\<rparr>" and dm = "logging_manager None (Inl ''none'')" and s = "[]"]
    startReplay_validates [where lib = example_library and request = "\<lparr>Header = Map.empty, Query = Map.empty, Body = ''P1''\<rparr>"
      and r = "\<lparr>ReplayRate = 1 / 2, RepeatCount = 0\<rparr>" and dm = "logging_manager (Some ''busy'') (Inl ''none'')" and s = "[]"]
  by (simp add: example_library_def logging_manager_def)

text \<open>
  C9: POST /data with a Content-Type header that is not exactly application/json is
  answered 400 with the message naming the content type. The answer and the manager's
  state are the same whatever the library, the manager, the query and the body are:
  nothing is parsed, decompressed, decoded or passed to the manager.
\<close>

theorem importRecordedData_content_type:
  assumes "Values_Get (Header request) ''Content-Type'' \<noteq> ''application/json''"
  shows
    "importRecordedData lib dm newResponseWriter request s =
       (Returns \<lparr>Headers = Map.empty, Status = Some 400,
          Written = ''Invalid content type '' @ [CHR 0x27]
            @ Values_Get (Header request) ''Content-Type'' @ [CHR 0x27]
            @ ''. Must be application/json''\<rparr>, s)"
  using assms by (simp add: importRecordedData_def writer_simps)

theorem importRecordedData_content_type_witness:
  "importRecordedData example_library (logging_manager None (Inl ''none'')) newResponseWriter
     \<lparr>Header = [''Content-Type'' \<mapsto> [''text/plain'']],
      Query = [''overwrite'' \<mapsto> [''maybe'']], Body = ''D1''\<rparr> [] =
     (Returns \<lparr>Headers = Map.empty, Status = Some 400,
        Written = ''Invalid content type '' @ [CHR 0x27] @ ''text/plain'' @ [CHR 0x27]
          @ ''. Must be application/json''\<rparr>, []) \<and>
   importRecordedData example_library (logging_manager None (Inl ''none'')) newResponseWriter
     \<lparr>Header = [''Content-Type'' \<mapsto> [''application/json; charset=utf-8'']],
      Query = Map.empty, Body = ''D1''\<rparr> [] =
     (Returns \<lparr>Headers = Map.empty, Status = Some 400,
        Written = ''Invalid content type '' @ [CHR 0x27] @ ''application/json; charset=utf-8''
          @ [CHR 0x27] @ ''. Must be application/json''\<rparr>, [])"
  using
    importRecordedData_content_type [of
      "\<lparr>Header = [''Content-Type'' \<mapsto> [''text/plain'']],
        Query = [''overwrite'' \<mapsto> [''maybe'']], Body = ''D1''\<rparr>"
      example_library "logging_manager None (Inl ''none'')" "[]"]
    importRecordedData_content_type [of
      "\<lparr>Header = [''Content-Type'' \<mapsto> [''application/json; charset=utf-8'']],
        Query = Map.empty, Body = ''D1''\<rparr>"
      example_library "logging_manager None (Inl ''none'')" "[]"]
  by (simp add: Values_Get_def)



text \<open>
  C3: GET /data. An error of \<^verbatim>\<open>ExportRecordedData\<close> is answered 500, whatever the
  compression token. With recorded data, the token ZLIB (GZIP) sets the headers
  Content-Encoding: ZLIB (GZIP) and Content-Type: application/json, and when the data
  marshals the answer is 200 with the zlib (gzip) stream of the encoded JSON, which is the
  marshalled JSON and a newline; the empty token answers 200 with the marshalled JSON;
  every other token is answered 500.
\<close>

theorem exportRecordedData_compression:
  "(ExportRecordedData dm s = (Returns (Inl err), s') \<longrightarrow>
      exportRecordedData lib dm newResponseWriter request s =
        (Returns \<lparr>Headers = Map.empty, Status = Some 500,
           Written = ''failed to export recorded data: '' @ err\<rparr>, s')) \<and>
   (ExportRecordedData dm s = (Returns (Inr d), s') \<longrightarrow>
      (Values_Get (Query request) ''compression'' = ''ZLIB'' \<longrightarrow>
         (\<exists>code body. exportRecordedData lib dm newResponseWriter request s =
            (Returns \<lparr>Headers = [''Content-Encoding'' \<mapsto> [''ZLIB''],
                                  ''Content-Type'' \<mapsto> [''application/json'']],
               Status = Some code, Written = body\<rparr>, s')) \<and>
         (\<forall>js. json_Marshal lib d = Inr js \<longrightarrow>
            exportRecordedData lib dm newResponseWriter request s =
              (Returns \<lparr>Headers = [''Content-Encoding'' \<mapsto> [''ZLIB''],
                                    ''Content-Type'' \<mapsto> [''application/json'']],
                 Status = Some 200, Written = zlib_stream lib (js @ [CHR 0x0A])\<rparr>, s'))) \<and>
      (Values_Get (Query request) ''compression'' = ''GZIP'' \<longrightarrow>
         (\<exists>code body. exportRecordedData lib dm newResponseWriter request s =
            (Returns \<lparr>Headers = [''Content-Encoding'' \<mapsto> [''GZIP''],
                                  ''Content-Type'' \<mapsto> [''application/json'']],
               Status = Some code, Written = body\<rparr>, s')) \<and>
         (\<forall>js. json_Marshal lib d = Inr js \<longrightarrow>
            exportRecordedData lib dm newResponseWriter request s =
              (Returns \<lparr>Headers = [''Content-Encoding'' \<mapsto> [''GZIP''],
                                    ''Content-Type'' \<mapsto> [''application/json'']],
                 Status = Some 200, Written = gzip_stream lib (js @ [CHR 0x0A])\<rparr>, s'))) \<and>
      (Values_Get (Query request) ''compression'' = [] \<longrightarrow>
         (\<forall>js. json_Marshal lib d = Inr js \<longrightarrow>
            exportRecordedData lib dm newResponseWriter request s =
              (Returns \<lparr>Headers = [''Content-Type'' \<mapsto> [''application/json'']],
                 Status = Some 200, Written = js\<rparr>, s'))) \<and>
      (Values_Get (Query request) ''compression'' \<notin> {[], ''ZLIB'', ''GZIP''} \<longrightarrow>
         exportRecordedData lib dm newResponseWriter request s =
           (Returns \<lparr>Headers = Map.empty, Status = Some 500,
              Written = ''compression format not available: ''
                @ Values_Get (Query request) ''compression''\<rparr>, s')))"
  by (cases "json_Marshal lib d")
    (simp_all add: exportRecordedData_def writer_simps Let_def)


theorem exportRecordedData_compression_witness:
  "exportRecordedData example_library
     (logging_manager None (Inr \<lparr>RecordedEvents = [1], Devices = [2], Profiles = [3]\<rparr>))
     newResponseWriter
     \<lparr>Header = Map.empty, Query = [''compression'' \<mapsto> [''ZLIB'']], Body = []\<rparr> [] =
     (Returns \<lparr>Headers = [''Content-Encoding'' \<mapsto> [''ZLIB''],
                           ''Content-Type'' \<mapsto> [''application/json'']],
        Status = Some 200, Written = ''zl:D1'' @ [CHR 0x0A]\<rparr>, [ExportRecordedDataCall]) \<and>
   exportRecordedData example_library
     (logging_manager None (Inr \<lparr>RecordedEvents = [1], Devices = [2], Profiles = [3]\<rparr>))
     newResponseWriter
     \<lparr>Header = Map.empty, Query = [''compression'' \<mapsto> [''GZIP'']], Body = []\<rparr> [] =
     (Returns \<lparr>Headers = [''Content-Encoding'' \<mapsto> [''GZIP''],
                           ''Content-Type'' \<mapsto> [''application/json'']],
        Status = Some 200, Written = ''gz:D1'' @ [CHR 0x0A]\<rparr>, [ExportRecordedDataCall]) \<and>
   exportRecordedData example_library
     (logging_manager None (Inr \<lparr>RecordedEvents = [1], Devices = [2], Profiles = [3]\<rparr>))
     newResponseWriter
     \<lparr>Header = Map.empty, Query = [''compression'' \<mapsto> [''gzip'']], Body = []\<rparr> [] =
     (Returns \<lparr>Headers = Map.empty, Status = Some 500,
        Written = ''compression format not available: gzip''\<rparr>, [ExportRecordedDataCall]) \<and>
   exportRecordedData example_library (logging_manager None (Inl ''no recorded data''))
     newResponseWriter
     \<lparr>Header = Map.empty, Query = [''compression'' \<mapsto> [''ZLIB'']], Body = []\<rparr> [] =
     (Returns \<lparr>Headers = Map.empty, Status = Some 500,
        Written = ''failed to export recorded data: no recorded data''\<rparr>,
      [ExportRecordedDataCall])"
  using
    exportRecordedData_compression [where lib = example_library
      and dm = "logging_manager None (Inr \<lparr>RecordedEvents = [1], Devices = [2], Profiles = [3]\<rparr>)"
      and request = "\<lparr>Header = Map.empty, Query = [''compression'' \<mapsto> [''ZLIB'']], Body = []\<rparr>"
      and s = "[]" and s' = "[ExportRecordedDataCall]"
      and d = "\<lparr>RecordedEvents = [1], Devices = [2], Profiles = [3]\<rparr>"]
    exportRecordedData_compression [where lib = example_library
      and dm = "logging_manager None (Inr \<lparr>RecordedEvents = [1], Devices = [2], Profiles = [3]\<rparr>)"
      and request = "\<lparr>Header = Map.empty, Query = [''compression'' \<mapsto> [''GZIP'']], Body = []\<rparr>"
      and s = "[]" and s' = "[ExportRecordedDataCall]"
      and d = "\<lparr>RecordedEvents = [1], Devices = [2], Profiles = [3]\<rparr>"]
    exportRecordedData_compression [where lib = example_library
      and dm = "logging_manager None (Inr \<lparr>RecordedEvents = [1], Devices = [2], Profiles = [3]\<rparr>)"
      and request = "\<lparr>Header = Map.empty, Query = [''compression'' \<mapsto> [''gzip'']], Body = []\<rparr>"
      and s = "[]" and s' = "[ExportRecordedDataCall]"
      and d = "\<lparr>RecordedEvents = [1], Devices = [2], Profiles = [3]\<rparr>"]
    exportRecordedData_compression [where lib = example_library
      and dm = "logging_manager None (Inl ''no recorded data'')"
      and request = "\<lparr>Header = Map.empty, Query = [''compression'' \<mapsto> [''ZLIB'']], Body = []\<rparr>"
      and s = "[]" and s' = "[ExportRecordedDataCall]" and err = "''no recorded data''"]
  by (simp add: example_library_def logging_manager_def Values_Get_def)

text \<open>
  C4: POST /data. The reader the body is decoded from is chosen by the Content-Encoding
  header alone: the body itself for the empty token, a gzip reader for "gzip", a zlib
  reader for "deflate", for every body (a reader that fails on the stream's header is
  answered 400); no other token selects a reader, the export's "GZIP" and "ZLIB" included.
  A request that passes the content type and overwrite checks is decoded from exactly that
  reader. On export the import's tokens "gzip" and "deflate" are answered 500.
\<close>

theorem importRecordedData_reader_by_header:
  "(Values_Get (Header request) ''Content-Encoding'' = [] \<longrightarrow>
      importRecordedData_reader lib request = Inr (BodyReader (Body request))) \<and>
   (Values_Get (Header request) ''Content-Encoding'' = ''gzip'' \<longrightarrow>
      importRecordedData_reader lib request =
        (case gzip_NewReader lib (Body request) of
           Some err \<Rightarrow> Inl (''failed to uncompress data: '' @ err)
         | None \<Rightarrow> Inr (GzipReader (Body request)))) \<and>
   (Values_Get (Header request) ''Content-Encoding'' = ''deflate'' \<longrightarrow>
      importRecordedData_reader lib request =
        (case zlib_NewReader lib (Body request) of
           Some err \<Rightarrow> Inl (''failed to uncompress data: '' @ err)
         | None \<Rightarrow> Inr (ZlibReader (Body request)))) \<and>
   (Values_Get (Header request) ''Content-Encoding'' \<notin> {[], ''gzip'', ''deflate''} \<longrightarrow>
      importRecordedData_reader lib request =
        Inl (''compression format '' @ Values_Get (Header request) ''Content-Encoding''
               @ '' not supported'')) \<and>
   (Values_Get (Header request) ''Content-Encoding'' \<in> {''GZIP'', ''ZLIB''} \<longrightarrow>
      (\<exists>msg. importRecordedData_reader lib request = Inl msg)) \<and>
   (Values_Get (Header request) ''Content-Type'' = ''application/json'' \<longrightarrow>
    importRecordedData_overwrite lib request = Inr ow \<longrightarrow>
      importRecordedData lib dm writer request s =
        (case importRecordedData_reader lib request of
           Inl msg \<Rightarrow> (Returns (Write msg (WriteHeader 400 writer)), s)
         | Inr rd \<Rightarrow>
             importRecordedData_decoded dm writer ow s (json_Decode_RecordedData lib rd))) \<and>
   (ExportRecordedData dm s = (Returns (Inr d), s') \<longrightarrow>
    Values_Get (Query request) ''compression'' \<in> {''gzip'', ''deflate''} \<longrightarrow>
      exportRecordedData lib dm newResponseWriter request s =
        (Returns \<lparr>Headers = Map.empty, Status = Some 500,
           Written = ''compression format not available: ''
             @ Values_Get (Query request) ''compression''\<rparr>, s'))"
  by (simp add: importRecordedData_reader_def importRecordedData_def
      exportRecordedData_def writer_simps Let_def split: option.splits)


theorem importRecordedData_reader_by_header_witness:
  "importRecordedData example_library (logging_manager None (Inl ''none'')) newResponseWriter
     \<lparr>Header = [''Content-Type'' \<mapsto> [''application/json''], ''Content-Encoding'' \<mapsto> [''gzip'']],
      Query = Map.empty, Body = ''gz:D1''\<rparr> [] =
     (Returns \<lparr>Headers = Map.empty, Status = Some 202, Written = []\<rparr>,
      [ImportRecordedDataCall \<lparr>RecordedEvents = [1], Devices = [2], Profiles = [3]\<rparr> True]) \<and>
   importRecordedData example_library (logging_manager None (Inl ''none'')) newResponseWriter
     \<lparr>Header = [''Content-Type'' \<mapsto> [''application/json''], ''Content-Encoding'' \<mapsto> [''deflate'']],
      Query = Map.empty, Body = ''zl:D1''\<rparr> [] =
     (Returns \<lparr>Headers = Map.empty, Status = Some 202, Written = []\<rparr>,
      [ImportRecordedDataCall \<lparr>RecordedEvents = [1], Devices = [2], Profiles = [3]\<rparr> True]) \<and>
   importRecordedData example_library (logging_manager None (Inl ''none'')) newResponseWriter
     \<lparr>Header = [''Content-Type'' \<mapsto> [''application/json'']],
      Query = Map.empty, Body = ''gz:D1''\<rparr> [] =
     (Returns \<lparr>Headers = Map.empty, Status = Some 400,
        Written = ''Unable to process request JSON: invalid character''\<rparr>, []) \<and>
   importRecordedData example_library (logging_manager None (Inl ''none'')) newResponseWriter
     \<lparr>Header = [''Content-Type'' \<mapsto> [''application/json''], ''Content-Encoding'' \<mapsto> [''GZIP'']],
      Query = Map.empty, Body = ''gz:D1''\<rparr> [] =
     (Returns \<lparr>Headers = Map.empty, Status = Some 400,
        Written = ''compression format GZIP not supported''\<rparr>, [])"
  using
    importRecordedData_reader_by_header [where lib = example_library
      and dm = "logging_manager None (Inl ''none'')" and writer = newResponseWriter
      and s = "[]" and ow = True
      and request = "\<lparr>Header = [''Content-Type'' \<mapsto> [''application/json''],
                               ''Content-Encoding'' \<mapsto> [''gzip'']],
                      Query = Map.empty, Body = ''gz:D1''\<rparr>"]
    importRecordedData_reader_by_header [where lib = example_library
      and dm = "logging_manager None (Inl ''none'')" and writer = newResponseWriter
      and s = "[]" and ow = True
      and request = "\<lparr>Header = [''Content-Type'' \<mapsto> [''application/json''],
                               ''Content-Encoding'' \<mapsto> [''deflate'']],
                      Query = Map.empty, Body = ''zl:D1''\<rparr>"]
    importRecordedData_reader_by_header [where lib = example_library
      and dm = "logging_manager None (Inl ''none'')" and writer = newResponseWriter
      and s = "[]" and ow = True
      and request = "\<lparr>Header = [''Content-Type'' \<mapsto> [''application/json'']],
                      Query = Map.empty, Body = ''gz:D1''\<rparr>"]
    importRecordedData_reader_by_header [where lib = example_library
      and dm = "logging_manager None (Inl ''none'')" and writer = newResponseWriter
      and s = "[]" and ow = True
      and request = "\<lparr>Header = [''Content-Type'' \<mapsto> [''application/json''],
                               ''Content-Encoding'' \<mapsto> [''GZIP'']],
                      Query = Map.empty, Body = ''gz:D1''\<rparr>"]
  by (simp add: example_library_def logging_manager_def Values_Get_def
      importRecordedData_overwrite_def importRecordedData_decoded_def writer_simps)

text \<open>
  C8: POST /data. Without an overwrite query parameter the overwrite flag is true; with
  one whose first value \<^verbatim>\<open>strconv.ParseBool\<close> parses, the flag is the parsed value. (An empty
  value counts as absent; a value that does not parse is answered 400.) A request that
  passes every check reaches \<^verbatim>\<open>ImportRecordedData\<close> with the decoded data and that flag.
\<close>

theorem importRecordedData_overwrite_flag:
  "(Query request ''overwrite'' = None \<longrightarrow>
      importRecordedData_overwrite lib request = Inr True) \<and>
   (Query request ''overwrite'' = Some (v # vs) \<longrightarrow>
    ParseBool (strconv_Quote lib) v = Inr b \<longrightarrow>
      importRecordedData_overwrite lib request = Inr b) \<and>
   (Values_Get (Header request) ''Content-Type'' = ''application/json'' \<longrightarrow>
    importRecordedData_overwrite lib request = Inr ow \<longrightarrow>
    importRecordedData_reader lib request = Inr rd \<longrightarrow>
    json_Decode_RecordedData lib rd = Inr (Some d) \<longrightarrow>
    RecordedEvents d \<noteq> [] \<longrightarrow> Devices d \<noteq> [] \<longrightarrow> Profiles d \<noteq> [] \<longrightarrow>
      importRecordedData lib dm newResponseWriter request s =
        (case ImportRecordedData dm d ow s of
           (Panics msg, s') \<Rightarrow> (Panics msg, s')
         | (Returns (Some err), s') \<Rightarrow>
             (Returns \<lparr>Headers = Map.empty, Status = Some 500,
                Written = ''Import data failed: '' @ err\<rparr>, s')
         | (Returns None, s') \<Rightarrow>
             (Returns \<lparr>Headers = Map.empty, Status = Some 202, Written = []\<rparr>, s')))"
proof -
  have absent: "Query request ''overwrite'' = None \<Longrightarrow>
      importRecordedData_overwrite lib request = Inr True"
    by (simp add: importRecordedData_overwrite_def Values_Get_def)
  have present: "importRecordedData_overwrite lib request = Inr b"
    if "Query request ''overwrite'' = Some (v # vs)" "ParseBool (strconv_Quote lib) v = Inr b"
  proof -
    have "v \<noteq> []"
      using that(2) by (auto simp add: ParseBool_def)
    then show ?thesis
      using that by (simp add: importRecordedData_overwrite_def Values_Get_def)
  qed
  have passed: "importRecordedData lib dm newResponseWriter request s =
        (case ImportRecordedData dm d ow s of
           (Panics msg, s') \<Rightarrow> (Panics msg, s')
         | (Returns (Some err), s') \<Rightarrow>
             (Returns \<lparr>Headers = Map.empty, Status = Some 500,
                Written = ''Import data failed: '' @ err\<rparr>, s')
         | (Returns None, s') \<Rightarrow>
             (Returns \<lparr>Headers = Map.empty, Status = Some 202, Written = []\<rparr>, s'))"
    if "Values_Get (Header request) ''Content-Type'' = ''application/json''"
      "importRecordedData_overwrite lib request = Inr ow"
      "importRecordedData_reader lib request = Inr rd"
      "json_Decode_RecordedData lib rd = Inr (Some d)"
      "RecordedEvents d \<noteq> []" "Devices d \<noteq> []" "Profiles d \<noteq> []"
    using that
    by (simp add: importRecordedData_def importRecordedData_decoded_def writer_simps
        split: prod.splits outcome.splits option.splits)
  show ?thesis
    using absent present passed by blast
qed


theorem importRecordedData_overwrite_flag_witness:
  "importRecordedData example_library (logging_manager None (Inl ''none'')) newResponseWriter
     \<lparr>Header = [''Content-Type'' \<mapsto> [''application/json'']],
      Query = Map.empty, Body = ''D1''\<rparr> [] =
     (Returns \<lparr>Headers = Map.empty, Status = Some 202, Written = []\<rparr>,
      [ImportRecordedDataCall \<lparr>RecordedEvents = [1], Devices = [2], Profiles = [3]\<rparr> True]) \<and>
   importRecordedData example_library (logging_manager None (Inl ''none'')) newResponseWriter
     \<lparr>Header = [''Content-Type'' \<mapsto> [''application/json'']],
      Query = [''overwrite'' \<mapsto> [''false'']], Body = ''D1''\<rparr> [] =
     (Returns \<lparr>Headers = Map.empty, Status = Some 202, Written = []\<rparr>,
      [ImportRecordedDataCall \<lparr>RecordedEvents = [1], Devices = [2], Profiles = [3]\<rparr> False]) \<and>
   importRecordedData example_library (logging_manager (Some ''busy'') (Inl ''none''))
     newResponseWriter
     \<lparr>Header = [''Content-Type'' \<mapsto> [''application/json'']],
      Query = [''overwrite'' \<mapsto> [''T'']], Body = ''D1''\<rparr> [] =
     (Returns \<lparr>Headers = Map.empty, Status = Some 500, Written = ''Import data failed: busy''\<rparr>,
      [ImportRecordedDataCall \<lparr>RecordedEvents = [1], Devices = [2], Profiles = [3]\<rparr> True])"
  using
    importRecordedData_overwrite_flag [where lib = example_library
      and dm = "logging_manager None (Inl ''none'')" and s = "[]" and ow = True
      and rd = "BodyReader ''D1''"
      and d = "\<lparr>RecordedEvents = [1], Devices = [2], Profiles = [3]\<rparr>"
      and request = "\<lparr>Header = [''Content-Type'' \<mapsto> [''application/json'']],
                      Query = Map.empty, Body = ''D1''\<rparr>"]
    importRecordedData_overwrite_flag [where lib = example_library
      and dm = "logging_manager None (Inl ''none'')" and s = "[]" and ow = False
      and v = "''false''" and vs = "[]" and b = False
      and rd = "BodyReader ''D1''"
      and d = "\<lparr>RecordedEvents = [1], Devices = [2], Profiles = [3]\<rparr>"
      and request = "\<lparr>Header = [''Content-Type'' \<mapsto> [''application/json'']],
                      Query = [''overwrite'' \<mapsto> [''false'']], Body = ''D1''\<rparr>"]
    importRecordedData_overwrite_flag [where lib = example_library
      and dm = "logging_manager (Some ''busy'') (Inl ''none'')" and s = "[]" and ow = True
      and v = "''T''" and vs = "[]" and b = True
      and rd = "BodyReader ''D1''"
      and d = "\<lparr>RecordedEvents = [1], Devices = [2], Profiles = [3]\<rparr>"
      and request = "\<lparr>Header = [''Content-Type'' \<mapsto> [''application/json'']],
                      Query = [''overwrite'' \<mapsto> [''T'']], Body = ''D1''\<rparr>"]
  by (simp add: example_library_def logging_manager_def Values_Get_def ParseBool_def
      importRecordedData_reader_def)

text \<open>
  C10: POST /data with a Content-Encoding that is not empty, "gzip" or "deflate" is
  answered 400, and the manager's state is the one the handler started from; the answer
  does not depend on the decoder or the manager. The message is the one of the first
  failing check: for a request with content type application/json and an overwrite
  parameter that is absent or parses, it is "compression format ... not supported". On
  export an unknown compression token is answered 500.
\<close>

theorem importRecordedData_unknown_encoding:
  assumes "Values_Get (Header request) ''Content-Encoding'' \<notin> {[], ''gzip'', ''deflate''}"
  shows
    "importRecordedData lib dm newResponseWriter request s =
       (Returns \<lparr>Headers = Map.empty, Status = Some 400,
          Written =
            (if Values_Get (Header request) ''Content-Type'' \<noteq> ''application/json'' then
               ''Invalid content type '' @ [CHR 0x27]
                 @ Values_Get (Header request) ''Content-Type'' @ [CHR 0x27]
                 @ ''. Must be application/json''
             else
               (case importRecordedData_overwrite lib request of
                  Inl msg \<Rightarrow> msg
                | Inr ow \<Rightarrow>
                    ''compression format '' @ Values_Get (Header request) ''Content-Encoding''
                      @ '' not supported''))\<rparr>, s) \<and>
     (ExportRecordedData dm s = (Returns (Inr d), s') \<longrightarrow>
      Values_Get (Query request) ''compression'' \<notin> {[], ''ZLIB'', ''GZIP''} \<longrightarrow>
        exportRecordedData lib dm newResponseWriter request s =
          (Returns \<lparr>Headers = Map.empty, Status = Some 500,
             Written = ''compression format not available: ''
               @ Values_Get (Query request) ''compression''\<rparr>, s'))"
  using assms
  by (simp add: importRecordedData_def importRecordedData_reader_def exportRecordedData_def
      writer_simps Let_def split: sum.splits)

theorem importRecordedData_unknown_encoding_witness:
  "importRecordedData example_library (logging_manager None (Inl ''none'')) newResponseWriter
     \<lparr>Header = [''Content-Type'' \<mapsto> [''application/json''], ''Content-Encoding'' \<mapsto> [''br'']],
      Query = Map.empty, Body = ''D1''\<rparr> [] =
     (Returns \<lparr>Headers = Map.empty, Status = Some 400,
        Written = ''compression format br not supported''\<rparr>, []) \<and>
   importRecordedData example_library (logging_manager None (Inl ''none'')) newResponseWriter
     \<lparr>Header = [''Content-Type'' \<mapsto> [''application/json''], ''Content-Encoding'' \<mapsto> [''ZLIB'']],
      Query = [''overwrite'' \<mapsto> [''true'']], Body = ''D1''\<rparr> [] =
     (Returns \<lparr>Headers = Map.empty, Status = Some 400,
        Written = ''compression format ZLIB not supported''\<rparr>, []) \<and>
   exportRecordedData example_library
     (logging_manager None (Inr \<lparr>RecordedEvents = [1], Devices = [2], Profiles = [3]\<rparr>))
     newResponseWriter
     \<lparr>Header = [''Content-Type'' \<mapsto> [''application/json''], ''Content-Encoding'' \<mapsto> [''br'']],
      Query = [''compression'' \<mapsto> [''br'']], Body = []\<rparr> [] =
     (Returns \<lparr>Headers = Map.empty, Status = Some 500,
        Written = ''compression format not available: br''\<rparr>, [ExportRecordedDataCall])"
  using
    importRecordedData_unknown_encoding [where lib = example_library
      and dm = "logging_manager None (Inl ''none'')" and s = "[]"
      and request = "\<lparr>Header = [''Content-Type'' \<mapsto> [''application/json''],
                               ''Content-Encoding'' \<mapsto> [''br'']],
                      Query = Map.empty, Body = ''D1''\<rparr>"]
    importRecordedData_unknown_encoding [where lib = example_library
      and dm = "logging_manager None (Inl ''none'')" and s = "[]"
      and request = "\<lparr>Header = [''Content-Type'' \<mapsto> [''application/json''],
                               ''Content-Encoding'' \<mapsto> [''ZLIB'']],
                      Query = [''overwrite'' \<mapsto> [''true'']], Body = ''D1''\<rparr>"]
    importRecordedData_unknown_encoding [where lib = example_library
      and dm = "logging_manager None (Inr \<lparr>RecordedEvents = [1], Devices = [2], Profiles = [3]\<rparr>)"
      and s = "[]" and s' = "[ExportRecordedDataCall]"
      and d = "\<lparr>RecordedEvents = [1], Devices = [2], Profiles = [3]\<rparr>"
      and request = "\<lparr>Header = [''Content-Type'' \<mapsto> [''application/json''],
                               ''Content-Encoding'' \<mapsto> [''br'']],
                      Query = [''compression'' \<mapsto> [''br'']], Body = []\<rparr>"]
  by (simp add: example_library_def logging_manager_def Values_Get_def ParseBool_def
      importRecordedData_overwrite_def)

end
